theory Spec2Isabelle
  imports Complex_Main
begin

section \<open>Data model\<close>

text \<open>
  The data frame that \<^verbatim>\<open>pd.read_csv\<close> builds from the downloaded CSV. Its header is the
  list \<open>columns\<close>. A row gives the entity name, the year and, for every other column name,
  a floating-point cell; \<open>None\<close> is pandas' null (an empty CSV field). The columns are
  typed as the upstream data has them: text entities, integer years, numeric coverage;
  floating-point numbers are taken as real numbers.
\<close>

record raw_row =
  Entity :: "string option"
  Year :: "int option"
  cell :: "string \<Rightarrow> real option"

record dataframe =
  columns :: "string list"
  rows :: "raw_row list"

text \<open>A row of the frame that \<^verbatim>\<open>df.melt\<close> returns: the two id columns, the variable column
  (named \<^verbatim>\<open>antigen\<close>) and the value column (named \<^verbatim>\<open>coverage_pct\<close>).\<close>

record melted_row =
  m_Entity :: "string option"
  m_Year :: "int option"
  m_antigen :: string
  m_coverage_pct :: "real option"

text \<open>A row of \<^verbatim>\<open>df_tidy\<close> and of the table \<^verbatim>\<open>immunization\<close>.\<close>

record coverage_record =
  country :: string
  year :: int
  antigen :: string
  coverage_pct :: real

datatype etl_error =
    FetchError
  | KeyError string
  | IntegrityError
  | DatabaseError

section \<open>Transform: the tidying statements of \<^verbatim>\<open>run_etl\<close>\<close>

definition startswith :: "string \<Rightarrow> string \<Rightarrow> bool" where
  "startswith s p = (take (length p) s = p)"

text \<open>\<^verbatim>\<open>coverage_cols = [c for c in df.columns if c.startswith("coverage__")]\<close>\<close>

definition coverage_cols :: "dataframe \<Rightarrow> string list" where
  "coverage_cols df = filter (\<lambda>c. startswith c ''coverage__'') (columns df)"

text \<open>One melted row: the id values of the row, the name of the value column, its cell.\<close>

definition melt_row :: "string \<Rightarrow> raw_row \<Rightarrow> melted_row" where
  "melt_row c r =
     \<lparr>m_Entity = Entity r, m_Year = Year r, m_antigen = c, m_coverage_pct = cell r c\<rparr>"

text \<open>
  \<^verbatim>\<open>df.melt(id_vars=["Entity", "Year"], value_vars=..., var_name="antigen",
  value_name="coverage_pct")\<close>: a \<^verbatim>\<open>KeyError\<close> when an id column is not in the header;
  otherwise the rows of the frame once for each value column, column after column.
\<close>

definition melt :: "dataframe \<Rightarrow> string list \<Rightarrow> etl_error + melted_row list" where
  "melt df value_vars =
     (if ''Entity'' \<notin> set (columns df) then Inl (KeyError ''Entity'')
      else if ''Year'' \<notin> set (columns df) then Inl (KeyError ''Year'')
      else Inr (concat (map (\<lambda>c. map (melt_row c) (rows df)) value_vars)))"

text \<open>
  \<^verbatim>\<open>.dropna()\<close> keeps a row when none of its fields is null, and
  \<^verbatim>\<open>.rename(columns={"Entity": "country", "Year": "year"})\<close> relabels the two id columns.
  \<open>notnull\<close> is the row as it is read after both, or \<open>None\<close> when it is dropped.
\<close>

definition notnull :: "melted_row \<Rightarrow> coverage_record option" where
  "notnull m =
     (case m_Entity m of None \<Rightarrow> None | Some e \<Rightarrow>
      (case m_Year m of None \<Rightarrow> None | Some y \<Rightarrow>
       (case m_coverage_pct m of None \<Rightarrow> None | Some v \<Rightarrow>
          Some \<lparr>country = e, year = y, antigen = m_antigen m, coverage_pct = v\<rparr>)))"

definition dropna_rename :: "melted_row list \<Rightarrow> coverage_record list" where
  "dropna_rename ms = List.map_filter notnull ms"

text \<open>\<^verbatim>\<open>Series.between(left, right)\<close>, both ends inclusive.\<close>

definition between :: "int \<Rightarrow> int \<Rightarrow> int \<Rightarrow> bool" where
  "between left right y = (left \<le> y \<and> y \<le> right)"

definition transform :: "dataframe \<Rightarrow> etl_error + coverage_record list" where
  "transform df =
     (case melt df (coverage_cols df) of
        Inl e \<Rightarrow> Inl e
      | Inr ms \<Rightarrow> Inr (filter (\<lambda>r. between 1980 2100 (year r)) (dropna_rename ms)))"

section \<open>Load: the SQLite statements of \<^verbatim>\<open>run_etl\<close>\<close>

text \<open>
  The database file \<^verbatim>\<open>vaccination.db\<close>: each of the two tables is absent (\<open>None\<close>) or
  holds its rows in insertion order.
\<close>

record database =
  owid_raw :: "dataframe option"
  immunization :: "coverage_record list option"

text \<open>The columns of \<^verbatim>\<open>PRIMARY KEY (country, antigen, year)\<close>.\<close>

definition primary_key :: "coverage_record \<Rightarrow> string \<times> string \<times> int" where
  "primary_key r = (country r, antigen r, year r)"

text \<open>
  \<^verbatim>\<open>df_tidy.to_sql(TABLE_CLEAN, conn, if_exists="append", index=False)\<close> on the rows the
  table holds: the insert is one transaction, which SQLite rejects with an
  \<^verbatim>\<open>IntegrityError\<close> when two rows would share a primary key; nothing is then inserted.
\<close>

definition to_sql_append ::
  "coverage_record list \<Rightarrow> coverage_record list \<Rightarrow> etl_error + coverage_record list" where
  "to_sql_append existing new_rows =
     (if distinct (map primary_key (existing @ new_rows)) then Inr (existing @ new_rows)
      else Inl IntegrityError)"

text \<open>
  Lines 72 to 84 of \<^verbatim>\<open>etl_pipeline.py\<close>: \<^verbatim>\<open>DROP TABLE IF EXISTS\<close>, \<^verbatim>\<open>CREATE TABLE\<close>, then
  the bulk insert. The result is the raised error, if any, and the database as it is left.
\<close>

definition load_coverage :: "coverage_record list \<Rightarrow> database \<Rightarrow> etl_error option \<times> database" where
  "load_coverage df_tidy db =
     (let dropped = db\<lparr>immunization := None\<rparr>;
          created = dropped\<lparr>immunization := Some []\<rparr>
      in case to_sql_append [] df_tidy of
           Inl e \<Rightarrow> (Some e, created)
         | Inr t \<Rightarrow> (None, created\<lparr>immunization := Some t\<rparr>))"

text \<open>
  \<^verbatim>\<open>run_etl\<close>. Its first argument is what the extract step yields: the error that
  \<^verbatim>\<open>requests.get\<close>, \<^verbatim>\<open>raise_for_status\<close> or \<^verbatim>\<open>pd.read_csv\<close> raises, or the parsed frame.
  Every error before the first write leaves the database as it was.
\<close>

definition run_etl :: "etl_error + dataframe \<Rightarrow> database \<Rightarrow> etl_error option \<times> database" where
  "run_etl resp db =
     (case resp of
        Inl e \<Rightarrow> (Some e, db)
      | Inr df \<Rightarrow>
          (case transform df of
             Inl e \<Rightarrow> (Some e, db)
           | Inr df_tidy \<Rightarrow> load_coverage df_tidy (db\<lparr>owid_raw := Some df\<rparr>)))"

section \<open>Query and comparison: \<^verbatim>\<open>run_analysis\<close>\<close>

text \<open>
  \<^verbatim>\<open>SELECT year, coverage_pct FROM immunization WHERE country = ? AND antigen = ?
  ORDER BY year\<close>; a \<^verbatim>\<open>DatabaseError\<close> when the table does not exist.
\<close>

definition query_series :: "database \<Rightarrow> string \<Rightarrow> string \<Rightarrow> etl_error + (int \<times> real) list" where
  "query_series db c a =
     (case immunization db of
        None \<Rightarrow> Inl DatabaseError
      | Some t \<Rightarrow>
          Inr (sort_key fst
                 (map (\<lambda>r. (year r, coverage_pct r))
                    (filter (\<lambda>r. country r = c \<and> antigen r = a) t))))"

text \<open>
  pandas' boolean indexing: \<^verbatim>\<open>series["year"] >= a\<close> and \<^verbatim>\<open>series["year"] <= b\<close> compare
  element by element, \<^verbatim>\<open>&\<close> joins two masks element by element, \<^verbatim>\<open>series[mask]\<close> keeps
  the rows whose mask entry is true, and \<^verbatim>\<open>["coverage_pct"]\<close> projects the value column.
\<close>

definition ge_mask :: "int list \<Rightarrow> int \<Rightarrow> bool list" where
  "ge_mask ys a = map (\<lambda>y. a \<le> y) ys"

definition le_mask :: "int list \<Rightarrow> int \<Rightarrow> bool list" where
  "le_mask ys b = map (\<lambda>y. y \<le> b) ys"

definition and_mask :: "bool list \<Rightarrow> bool list \<Rightarrow> bool list" where
  "and_mask m1 m2 = map (\<lambda>(p, q). p \<and> q) (zip m1 m2)"

definition select_rows :: "'a list \<Rightarrow> bool list \<Rightarrow> 'a list" where
  "select_rows xs m = map fst (filter snd (zip xs m))"

definition before_rows :: "(int \<times> real) list \<Rightarrow> int \<Rightarrow> int \<Rightarrow> (int \<times> real) list" where
  "before_rows series start_year pre_years =
     select_rows series
       (and_mask (ge_mask (map fst series) (start_year - pre_years))
                 (le_mask (map fst series) (start_year - 1)))"

definition after_rows :: "(int \<times> real) list \<Rightarrow> int \<Rightarrow> int \<Rightarrow> (int \<times> real) list" where
  "after_rows series start_year post_years =
     select_rows series
       (and_mask (ge_mask (map fst series) start_year)
                 (le_mask (map fst series) (start_year + post_years)))"

definition before_vals :: "(int \<times> real) list \<Rightarrow> int \<Rightarrow> int \<Rightarrow> real list" where
  "before_vals series start_year pre_years = map snd (before_rows series start_year pre_years)"

definition after_vals :: "(int \<times> real) list \<Rightarrow> int \<Rightarrow> int \<Rightarrow> real list" where
  "after_vals series start_year post_years = map snd (after_rows series start_year post_years)"

text \<open>\<^verbatim>\<open>np.mean\<close> and \<^verbatim>\<open>Series.mean\<close> on values without nulls.\<close>

definition mean :: "real list \<Rightarrow> real" where
  "mean xs = sum_list xs / real (length xs)"

text \<open>
  The functions taken from \<^verbatim>\<open>scipy.stats\<close>: \<^verbatim>\<open>ttest_ind(a, b, equal_var=False)\<close>, giving the
  statistic and the p-value, \<^verbatim>\<open>sem(data, nan_policy="omit")\<close> and \<^verbatim>\<open>t.ppf(q, df)\<close>.
\<close>

record scipy_stats =
  ttest_ind :: "real list \<Rightarrow> real list \<Rightarrow> real \<times> real"
  sem :: "real list \<Rightarrow> real"
  t_ppf :: "real \<Rightarrow> real \<Rightarrow> real"

text \<open>A floating-point result: \<^verbatim>\<open>np.nan\<close> or a number.\<close>

datatype npfloat = nan | Float real

definition mean_ci :: "scipy_stats \<Rightarrow> real list \<Rightarrow> real \<Rightarrow> npfloat \<times> npfloat" where
  "mean_ci lib data confidence =
     (if length data < 2 then (nan, nan)
      else
        let m = mean data;
            se = sem lib data;
            h = se * t_ppf lib ((1 + confidence) / 2) (real (length data) - 1)
        in (Float (m - h), Float (m + h)))"

record comparison =
  t_stat :: real
  p_val :: real
  ci_before :: "npfloat \<times> npfloat"
  ci_after :: "npfloat \<times> npfloat"
  avg_before :: real
  avg_after :: real
  diff :: real

datatype comparison_result = InsufficientData | Comparison comparison

text \<open>
  The statistics of the branch \<^verbatim>\<open>if len(before_vals) > 1 and len(after_vals) > 1\<close>, which
  \<^verbatim>\<open>run_analysis\<close> and the dashboard share.
\<close>

definition statistics :: "scipy_stats \<Rightarrow> real list \<Rightarrow> real list \<Rightarrow> comparison" where
  "statistics lib before after =
     (let tp = ttest_ind lib before after
      in \<lparr>t_stat = fst tp, p_val = snd tp,
          ci_before = mean_ci lib before 0.95,
          ci_after = mean_ci lib after 0.95,
          avg_before = mean before,
          avg_after = mean after,
          diff = mean after - mean before\<rparr>)"

text \<open>
  The window slicing and the gate that follow the query, in \<^verbatim>\<open>run_analysis\<close> (lines 113 to
  164) and in the dashboard (lines 204 to 268): the statistics, or the notice that there
  are not enough data points.
\<close>

definition compare :: "scipy_stats \<Rightarrow> (int \<times> real) list \<Rightarrow> int \<Rightarrow> int \<Rightarrow> int \<Rightarrow> comparison_result" where
  "compare lib series start_year pre_years post_years =
     (let before = before_vals series start_year pre_years;
          after = after_vals series start_year post_years
      in if length before > 1 \<and> length after > 1
         then Comparison (statistics lib before after)
         else InsufficientData)"

section \<open>Export and the batch entry point\<close>

text \<open>\<^verbatim>\<open>.replace(" ", "_")\<close>\<close>

definition replace_spaces :: "string \<Rightarrow> string" where
  "replace_spaces s = map (\<lambda>c. if c = CHR '' '' then CHR ''_'' else c) s"










section \<open>Notions of the specification and sample inputs\<close>

text \<open>The specification's reading of the antigen of a coverage column: the column name
  with the fixed prefix removed.\<close>

definition prefix_removed :: "string \<Rightarrow> string" where
  "prefix_removed c = drop (length ''coverage__'') c"

text \<open>A frame whose only row has no entity: a CSV line with an empty first field, the
  year 2000 and the coverage 90.\<close>

definition null_entity_df :: dataframe where
  "null_entity_df =
     \<lparr>columns = [''Entity'', ''Year'', ''coverage__dtp3''],
      rows = [\<lparr>Entity = None, Year = Some 2000,
               cell = (\<lambda>c. if c = ''coverage__dtp3'' then Some 90 else None)\<rparr>]\<rparr>"

text \<open>What the tidying statements make of a single cell: the melted row of the pair, after
  \<^verbatim>\<open>dropna\<close>, \<^verbatim>\<open>rename\<close> and the year filter.\<close>

definition pair_output :: "raw_row \<Rightarrow> string \<Rightarrow> coverage_record list" where
  "pair_output r c = filter (\<lambda>x. between 1980 2100 (year x)) (dropna_rename [melt_row c r])"

definition sample_df :: dataframe where
  "sample_df =
     \<lparr>columns = [''Entity'', ''Code'', ''Year'', ''coverage__dtp3'', ''coverage__mcv1''],
      rows =
        [\<lparr>Entity = Some ''India'', Year = Some 2000,
          cell = (\<lambda>c. if c = ''coverage__dtp3'' then Some 90 else None)\<rparr>,
         \<lparr>Entity = Some ''India'', Year = Some 1979,
          cell = (\<lambda>c. if c = ''coverage__dtp3'' then Some 50
                       else if c = ''coverage__mcv1'' then Some 40 else None)\<rparr>,
         \<lparr>Entity = Some ''Ghana'', Year = Some 2001,
          cell = (\<lambda>c. if c = ''coverage__mcv1'' then Some 70 else None)\<rparr>]\<rparr>"

definition sample_table :: "coverage_record list" where
  "sample_table =
     [\<lparr>country = ''India'', year = 2001, antigen = ''coverage__dtp3'', coverage_pct = 91\<rparr>,
      \<lparr>country = ''Ghana'', year = 2001, antigen = ''coverage__mcv1'', coverage_pct = 70\<rparr>,
      \<lparr>country = ''India'', year = 2000, antigen = ''coverage__dtp3'', coverage_pct = 90\<rparr>]"

definition scenario_series :: "(int \<times> real) list" where
  "scenario_series = [(2015, 60), (2016, 62), (2017, 65), (2018, 80), (2019, 85), (2020, 88)]"





text \<open>A stand-in for the statistics library, for evaluating the entry point on an input.\<close>

definition sample_lib :: scipy_stats where
  "sample_lib = \<lparr>ttest_ind = (\<lambda>a b. (0, 1)), sem = (\<lambda>d. 0), t_ppf = (\<lambda>q n. 0)\<rparr>"

definition empty_db :: database where
  "empty_db = \<lparr>owid_raw = None, immunization = None\<rparr>"


section \<open>Properties of the transform\<close>

lemmas transform_defs = transform_def melt_def coverage_cols_def startswith_def
  dropna_rename_def notnull_def melt_row_def between_def

lemma map_filter_append:
  "List.map_filter f (xs @ ys) = List.map_filter f xs @ List.map_filter f ys"
  by (induction xs) (simp_all split: option.splits)

lemma tidy_rows_by_pairs:
  "filter P (List.map_filter notnull (map (melt_row c) rs)) =
   concat (map (\<lambda>r. filter P (List.map_filter notnull [melt_row c r])) rs)"
  by (induction rs) (simp_all split: option.splits)

lemma tidy_columns_by_pairs:
  "filter P (List.map_filter notnull (concat (map (\<lambda>c. map (melt_row c) rs) cs))) =
   concat (map (\<lambda>c. concat (map (\<lambda>r. filter P (List.map_filter notnull [melt_row c r])) rs)) cs)"
  by (induction cs) (simp_all add: map_filter_append tidy_rows_by_pairs)

text \<open>The tidying statements work cell by cell: the output is the concatenation, column
  after column and row after row, of what each cell contributes.\<close>

lemma transform_by_pairs:
  assumes "''Entity'' \<in> set (columns df)" and "''Year'' \<in> set (columns df)"
  shows "transform df =
    Inr (concat (map (\<lambda>c. concat (map (\<lambda>r. pair_output r c) (rows df))) (coverage_cols df)))"
  using assms
  by (simp add: transform_def melt_def pair_output_def dropna_rename_def tidy_columns_by_pairs)

lemma pair_output_cases:
  assumes "Entity r = Some e" and "Year r = Some y"
  shows "pair_output r c =
    (case cell r c of
       None \<Rightarrow> []
     | Some v \<Rightarrow> if between 1980 2100 y
                 then [\<lparr>country = e, year = y, antigen = c, coverage_pct = v\<rparr>] else [])"
  using assms
  by (simp add: pair_output_def dropna_rename_def notnull_def melt_row_def
      split: option.splits)

text \<open>\<^verbatim>\<open>dropna()\<close> names no subset of columns: a row without its entity or its year is
  dropped as well, whatever its coverage cell holds.\<close>

lemma pair_output_null_id:
  assumes "Entity r = None \<or> Year r = None"
  shows "pair_output r c = []"
  using assms
  by (auto simp: pair_output_def dropna_rename_def notnull_def melt_row_def
      split: option.splits)

lemma sample_df_tidy:
  "transform sample_df =
     Inr [\<lparr>country = ''India'', year = 2000, antigen = ''coverage__dtp3'', coverage_pct = 90\<rparr>,
          \<lparr>country = ''Ghana'', year = 2001, antigen = ''coverage__mcv1'', coverage_pct = 70\<rparr>]"
  by (simp add: transform_defs sample_df_def)

text \<open>
  Claim C1, as the specification states it: the antigen of every emitted record is the
  name of its source column with the prefix \<^verbatim>\<open>coverage__\<close> removed. It fails: the sample
  frame has the cell 90 in column \<^verbatim>\<open>coverage__dtp3\<close> in its first row; the record emitted
  for that cell carries the antigen \<^verbatim>\<open>coverage__dtp3\<close>, which is not \<^verbatim>\<open>dtp3\<close>.
\<close>

theorem antigen_prefix_counterexample:
  "transform sample_df =
     Inr [\<lparr>country = ''India'', year = 2000, antigen = ''coverage__dtp3'', coverage_pct = 90\<rparr>,
          \<lparr>country = ''Ghana'', year = 2001, antigen = ''coverage__mcv1'', coverage_pct = 70\<rparr>]
   \<and> cell (hd (rows sample_df)) ''coverage__dtp3'' = Some 90
   \<and> prefix_removed ''coverage__dtp3'' = ''dtp3''
   \<and> ''coverage__dtp3'' \<noteq> prefix_removed ''coverage__dtp3''"
  by (simp add: transform_defs sample_df_def prefix_removed_def)

text \<open>
  Claim C1, amended: the antigen of every emitted record is the name of its source
  coverage column, unchanged: a column of the header whose name starts with
  \<^verbatim>\<open>coverage__\<close>, and the record's country, year and coverage are the entity, the year
  and the cell in that column of one row of the input.
\<close>

theorem transform_antigen_is_column:
  assumes "transform df = Inr t" and "x \<in> set t"
  shows "antigen x \<in> set (coverage_cols df) \<and> startswith (antigen x) ''coverage__''
    \<and> (\<exists>r \<in> set (rows df). Entity r = Some (country x) \<and> Year r = Some (year x)
          \<and> cell r (antigen x) = Some (coverage_pct x))"
proof -
  from assms obtain ms where ms: "melt df (coverage_cols df) = Inr ms"
    and x: "x \<in> set (dropna_rename ms)"
    by (auto simp: transform_def split: sum.splits)
  from x obtain m where m: "m \<in> set ms" and nn: "notnull m = Some x"
    by (auto simp: dropna_rename_def List.map_filter_def)
  from ms m obtain c r where c: "c \<in> set (coverage_cols df)" and r: "r \<in> set (rows df)"
    and mr: "m = melt_row c r"
    by (auto simp: melt_def split: if_splits)
  from nn mr have "antigen x = c" "Entity r = Some (country x)" "Year r = Some (year x)"
    "cell r c = Some (coverage_pct x)"
    by (auto simp: notnull_def melt_row_def split: option.splits)
  with c r show ?thesis
    by (auto simp: coverage_cols_def)
qed

theorem transform_antigen_is_column_witness:
  "transform sample_df =
     Inr [\<lparr>country = ''India'', year = 2000, antigen = ''coverage__dtp3'', coverage_pct = 90\<rparr>,
          \<lparr>country = ''Ghana'', year = 2001, antigen = ''coverage__mcv1'', coverage_pct = 70\<rparr>]
   \<and> ''coverage__mcv1'' \<in> set (coverage_cols sample_df)
   \<and> startswith ''coverage__mcv1'' ''coverage__''"
proof -
  let ?x = "\<lparr>country = ''Ghana'', year = 2001, antigen = ''coverage__mcv1'', coverage_pct = 70\<rparr>"
  have mem: "?x \<in> set [\<lparr>country = ''India'', year = 2000, antigen = ''coverage__dtp3'',
      coverage_pct = 90\<rparr>, ?x]"
    by simp
  from transform_antigen_is_column [OF sample_df_tidy mem] show ?thesis
    using sample_df_tidy by simp
qed

text \<open>
  Claim C3, as the specification states it: a cell of a coverage column is left out of
  the output exactly when it is null, the year filter apart. It fails: \<^verbatim>\<open>dropna()\<close> names
  no subset of columns, so the only row of the frame below, whose coverage is 90 and
  whose year 2000 is in range, is left out because its entity is null; the transform
  succeeds and returns no record.
\<close>

theorem null_entity_dropped_counterexample:
  "transform null_entity_df = Inr []
   \<and> length (rows null_entity_df) = 1
   \<and> Entity (hd (rows null_entity_df)) = None
   \<and> coverage_cols null_entity_df = [''coverage__dtp3'']
   \<and> cell (hd (rows null_entity_df)) ''coverage__dtp3'' = Some 90
   \<and> Year (hd (rows null_entity_df)) = Some 2000"
  by (simp add: transform_defs null_entity_df_def)

text \<open>
  Claim C3, amended: whenever the transform succeeds, a cell of a coverage column is left
  out of the output exactly when the cell, the entity of its row or the year of its row
  is null, or when that year is outside 1980 to 2100: the output is what the cells
  contribute, column after column and row after row; a cell with a null among the three
  contributes nothing, and any other cell contributes its one record when the year is in
  range and nothing otherwise.
\<close>

theorem transform_drop_exact:
  assumes "transform df = Inr t"
  shows "t = concat (map (\<lambda>c. concat (map (\<lambda>r. pair_output r c) (rows df))) (coverage_cols df))
    \<and> (\<forall>r c. pair_output r c =
           (case Entity r of
              None \<Rightarrow> []
            | Some e \<Rightarrow>
               (case Year r of
                  None \<Rightarrow> []
                | Some y \<Rightarrow>
                   (case cell r c of
                      None \<Rightarrow> []
                    | Some v \<Rightarrow>
                        if 1980 \<le> y \<and> y \<le> 2100
                        then [\<lparr>country = e, year = y, antigen = c, coverage_pct = v\<rparr>]
                        else []))))"
proof (intro conjI allI)
  from assms have "''Entity'' \<in> set (columns df)" and "''Year'' \<in> set (columns df)"
    by (auto simp: transform_def melt_def split: if_splits)
  from transform_by_pairs [OF this] assms
  show "t = concat (map (\<lambda>c. concat (map (\<lambda>r. pair_output r c) (rows df))) (coverage_cols df))"
    by simp
next
  fix r c
  show "pair_output r c =
           (case Entity r of
              None \<Rightarrow> []
            | Some e \<Rightarrow>
               (case Year r of
                  None \<Rightarrow> []
                | Some y \<Rightarrow>
                   (case cell r c of
                      None \<Rightarrow> []
                    | Some v \<Rightarrow>
                        if 1980 \<le> y \<and> y \<le> 2100
                        then [\<lparr>country = e, year = y, antigen = c, coverage_pct = v\<rparr>]
                        else [])))"
    by (auto simp: pair_output_def dropna_rename_def notnull_def melt_row_def between_def
        split: option.splits)
qed

theorem transform_drop_exact_witness:
  "transform sample_df =
     Inr [\<lparr>country = ''India'', year = 2000, antigen = ''coverage__dtp3'', coverage_pct = 90\<rparr>,
          \<lparr>country = ''Ghana'', year = 2001, antigen = ''coverage__mcv1'', coverage_pct = 70\<rparr>]
   \<and> [\<lparr>country = ''India'', year = 2000, antigen = ''coverage__dtp3'', coverage_pct = 90\<rparr>,
       \<lparr>country = ''Ghana'', year = 2001, antigen = ''coverage__mcv1'', coverage_pct = 70\<rparr>] =
      concat (map (\<lambda>c. concat (map (\<lambda>r. pair_output r c) (rows sample_df)))
        (coverage_cols sample_df))
   \<and> pair_output (rows sample_df ! 0) ''coverage__dtp3'' =
       [\<lparr>country = ''India'', year = 2000, antigen = ''coverage__dtp3'', coverage_pct = 90\<rparr>]
   \<and> pair_output (rows sample_df ! 0) ''coverage__mcv1'' = []
   \<and> pair_output (rows sample_df ! 1) ''coverage__dtp3'' = []
   \<and> pair_output (hd (rows null_entity_df)) ''coverage__dtp3'' = []"
proof -
  note step = transform_drop_exact [OF sample_df_tidy]
  from step have whole:
    "[\<lparr>country = ''India'', year = 2000, antigen = ''coverage__dtp3'', coverage_pct = 90\<rparr>,
      \<lparr>country = ''Ghana'', year = 2001, antigen = ''coverage__mcv1'', coverage_pct = 70\<rparr>] =
     concat (map (\<lambda>c. concat (map (\<lambda>r. pair_output r c) (rows sample_df)))
       (coverage_cols sample_df))"
    by blast
  from step have cellwise: "pair_output r c =
           (case Entity r of
              None \<Rightarrow> []
            | Some e \<Rightarrow>
               (case Year r of
                  None \<Rightarrow> []
                | Some y \<Rightarrow>
                   (case cell r c of
                      None \<Rightarrow> []
                    | Some v \<Rightarrow>
                        if 1980 \<le> y \<and> y \<le> 2100
                        then [\<lparr>country = e, year = y, antigen = c, coverage_pct = v\<rparr>]
                        else [])))" for r c
    by blast
  show ?thesis
    using whole sample_df_tidy
    by (simp add: cellwise sample_df_def null_entity_df_def)
qed

text \<open>
  Claim C8. Every record that the transform produces has a year between 1980 and 2100,
  both bounds included.
\<close>

theorem transform_year_range:
  assumes "transform df = Inr t" and "r \<in> set t"
  shows "1980 \<le> year r \<and> year r \<le> 2100"
  using assms
  by (auto simp: transform_def between_def split: sum.splits)

theorem transform_year_range_witness:
  "transform sample_df =
     Inr [\<lparr>country = ''India'', year = 2000, antigen = ''coverage__dtp3'', coverage_pct = 90\<rparr>,
          \<lparr>country = ''Ghana'', year = 2001, antigen = ''coverage__mcv1'', coverage_pct = 70\<rparr>]
   \<and> 1980 \<le> year \<lparr>country = ''India'', year = 2000, antigen = ''coverage__dtp3'',
          coverage_pct = 90\<rparr>
   \<and> year \<lparr>country = ''India'', year = 2000, antigen = ''coverage__dtp3'',
          coverage_pct = 90\<rparr> \<le> 2100"
proof -
  let ?x = "\<lparr>country = ''India'', year = 2000, antigen = ''coverage__dtp3'', coverage_pct = 90\<rparr>"
  have mem: "?x \<in> set [?x, \<lparr>country = ''Ghana'', year = 2001, antigen = ''coverage__mcv1'',
      coverage_pct = 70\<rparr>]"
    by simp
  from transform_year_range [OF sample_df_tidy mem] show ?thesis
    using sample_df_tidy by simp
qed

section \<open>Properties of the comparison\<close>

lemma select_rows_masks:
  "select_rows xs (and_mask (ge_mask (map f xs) a) (le_mask (map f xs) b)) =
   filter (\<lambda>x. a \<le> f x \<and> f x \<le> b) xs"
  by (induction xs) (simp_all add: select_rows_def and_mask_def ge_mask_def le_mask_def)

lemma scenario_windows:
  "before_vals scenario_series 2018 2 = [62, 65]"
  "after_vals scenario_series 2018 2 = [80, 85, 88]"
  by (simp_all add: before_vals_def after_vals_def before_rows_def after_rows_def
      select_rows_def and_mask_def ge_mask_def le_mask_def scenario_series_def)

text \<open>
  Claim C5. The before window holds exactly the observations of the series whose year
  lies in [campaign year - pre-years, campaign year - 1], and the after window exactly
  those whose year lies in [campaign year, campaign year + post-years], all four bounds
  included; the values compared are the values of these observations, in series order.
\<close>

theorem windows_exact:
  "before_rows series start_year pre_years =
     filter (\<lambda>(y, v). start_year - pre_years \<le> y \<and> y \<le> start_year - 1) series
   \<and> after_rows series start_year post_years =
     filter (\<lambda>(y, v). start_year \<le> y \<and> y \<le> start_year + post_years) series
   \<and> before_vals series start_year pre_years = map snd (before_rows series start_year pre_years)
   \<and> after_vals series start_year post_years = map snd (after_rows series start_year post_years)"
  by (simp add: before_rows_def after_rows_def before_vals_def after_vals_def
      select_rows_masks case_prod_unfold)

text \<open>
  Claim C2. The comparison yields the not-enough-data outcome, and no statistics, if and
  only if the before window or the after window holds fewer than 2 observations.
\<close>

theorem compare_insufficient_iff:
  "compare lib series start_year pre_years post_years = InsufficientData
   \<longleftrightarrow> length (before_rows series start_year pre_years) < 2
       \<or> length (after_rows series start_year post_years) < 2"
  by (auto simp: compare_def Let_def before_vals_def after_vals_def)

text \<open>
  Claim C6. On the series (2015,60), (2016,62), (2017,65), (2018,80), (2019,85),
  (2020,88) with campaign year 2018 and two years on either side, the before window
  holds the values 62 and 65 and the after window 80, 85 and 88; the means are 63.5 and
  253/3, which is 84.33 to two decimals, and the difference after minus before is 125/6,
  positive and 20.83 to two decimals. The arithmetic is that of the real numbers.
\<close>

theorem scenario_2018:
  "before_vals scenario_series 2018 2 = [62, 65]
   \<and> after_vals scenario_series 2018 2 = [80, 85, 88]
   \<and> mean (before_vals scenario_series 2018 2) = 63.5
   \<and> mean (after_vals scenario_series 2018 2) = 253 / 3
   \<and> \<bar>mean (after_vals scenario_series 2018 2) - 84.33\<bar> < 0.005
   \<and> (case compare lib scenario_series 2018 2 2 of
         InsufficientData \<Rightarrow> False
       | Comparison res \<Rightarrow>
           avg_before res = 63.5 \<and> avg_after res = 253 / 3 \<and> diff res = 125 / 6
           \<and> 0 < diff res \<and> \<bar>diff res - 20.83\<bar> < 0.005)"
  by (simp add: scenario_windows compare_def statistics_def mean_def Let_def)

text \<open>
  Claim C7. On a sequence of fewer than 2 values, \<^verbatim>\<open>mean_ci\<close> returns the not-a-number
  sentinel for both bounds; it returns, it does not raise.
\<close>

theorem mean_ci_short:
  assumes "length data < 2"
  shows "mean_ci lib data confidence = (nan, nan)"
  using assms by (simp add: mean_ci_def)

theorem mean_ci_short_witness:
  "length [42::real] < 2 \<and> mean_ci sample_lib [42] 0.95 = (nan, nan)
   \<and> mean_ci sample_lib [] 0.95 = (nan, nan)"
  using mean_ci_short [of "[42]" sample_lib "0.95"] mean_ci_short [of "[]" sample_lib "0.95"]
  by simp

section \<open>Properties of the store\<close>

text \<open>The insert succeeds when the keys are distinct; with a repeated key it raises, and
  the table is left recreated and empty.\<close>

lemma load_coverage_ok:
  assumes "distinct (map primary_key t)"
  shows "load_coverage t db = (None, db\<lparr>immunization := Some t\<rparr>)"
  using assms by (simp add: load_coverage_def to_sql_append_def)

lemma load_coverage_duplicate:
  assumes "\<not> distinct (map primary_key t)"
  shows "load_coverage t db = (Some IntegrityError, db\<lparr>immunization := Some []\<rparr>)"
  using assms by (simp add: load_coverage_def to_sql_append_def)

lemma years_of_pair_distinct:
  assumes "distinct (map primary_key t)"
  shows "distinct (map year (filter (\<lambda>r. country r = c \<and> antigen r = a) t))"
  using assms
proof (induction t)
  case Nil
  then show ?case by simp
next
  case (Cons r t)
  then show ?case
    by (auto simp: primary_key_def image_iff)
qed

lemma distinct_map_sort_key:
  "distinct (map f (sort_key g xs)) = distinct (map f xs)"
  by (simp add: distinct_map)

text \<open>
  Claim C9. For a coverage table, whose keys (country, antigen, year) are distinct as the
  data model requires, the load succeeds, and the query for a country and an antigen then
  returns exactly the (year, coverage) pairs the table holds for them, one per row, in
  strictly ascending order of year; when the table holds no row for the pair the query
  returns the empty series, which is a result and not an error.
\<close>

theorem load_query_roundtrip:
  assumes "distinct (map primary_key t)"
  shows "\<exists>db' s. load_coverage t db = (None, db') \<and> query_series db' c a = Inr s
     \<and> set s = {(year r, coverage_pct r) |r. r \<in> set t \<and> country r = c \<and> antigen r = a}
     \<and> sorted_wrt (<) (map fst s)
     \<and> length s = length (filter (\<lambda>r. country r = c \<and> antigen r = a) t)
     \<and> ((\<forall>r \<in> set t. country r \<noteq> c \<or> antigen r \<noteq> a) \<longrightarrow> s = [])"
proof -
  let ?sel = "filter (\<lambda>r. country r = c \<and> antigen r = a) t"
  let ?s = "sort_key fst (map (\<lambda>r. (year r, coverage_pct r)) ?sel)"
  have q: "query_series (db\<lparr>immunization := Some t\<rparr>) c a = Inr ?s"
    by (simp add: query_series_def)
  have st: "set ?s = {(year r, coverage_pct r) |r. r \<in> set t \<and> country r = c \<and> antigen r = a}"
    by auto
  have "distinct (map fst (map (\<lambda>r. (year r, coverage_pct r)) ?sel))"
    using years_of_pair_distinct [OF assms, of c a] by (simp add: comp_def)
  then have "distinct (map fst ?s)"
    by (simp only: distinct_map_sort_key)
  moreover have "sorted (map fst ?s)"
    by (rule sorted_sort_key)
  ultimately have so: "sorted_wrt (<) (map fst ?s)"
    by (simp add: strict_sorted_iff)
  have len: "length ?s = length ?sel" by simp
  have emp: "(\<forall>r \<in> set t. country r \<noteq> c \<or> antigen r \<noteq> a) \<longrightarrow> ?s = []"
    by (auto simp: filter_empty_conv)
  from load_coverage_ok [OF assms] q st so len emp show ?thesis
    by blast
qed

theorem load_query_roundtrip_witness:
  "distinct (map primary_key sample_table)
   \<and> load_coverage sample_table empty_db =
       (None, \<lparr>owid_raw = None, immunization = Some sample_table\<rparr>)
   \<and> query_series \<lparr>owid_raw = None, immunization = Some sample_table\<rparr>
         ''India'' ''coverage__dtp3'' = Inr [(2000, 90), (2001, 91)]
   \<and> query_series \<lparr>owid_raw = None, immunization = Some sample_table\<rparr>
         ''India'' ''dtp3'' = Inr []"
proof -
  have d: "distinct (map primary_key sample_table)"
    by (simp add: sample_table_def primary_key_def)
  have l: "load_coverage sample_table empty_db =
      (None, \<lparr>owid_raw = None, immunization = Some sample_table\<rparr>)"
    by (simp add: load_coverage_ok [OF d] empty_db_def)
  from load_query_roundtrip [OF d, of empty_db "''India''" "''coverage__dtp3''"]
    load_query_roundtrip [OF d, of empty_db "''India''" "''dtp3''"]
  show ?thesis
    using d l by (simp add: query_series_def sample_table_def)
qed

text \<open>
  Claim C10. Running the pipeline a second time on the same extract leaves the database,
  and so its table \<^verbatim>\<open>immunization\<close>, as the first run left it, with the same outcome:
  the table is dropped, recreated and filled from the extract alone.
\<close>

theorem run_etl_idempotent:
  "run_etl resp (snd (run_etl resp db)) = run_etl resp db
   \<and> immunization (snd (run_etl resp (snd (run_etl resp db)))) = immunization (snd (run_etl resp db))"
  by (auto simp: run_etl_def load_coverage_def Let_def split: sum.splits)

section \<open>Properties of the batch entry point\<close>

lemma replace_spaces_append:
  "replace_spaces (xs @ ys) = replace_spaces xs @ replace_spaces ys"
  by (simp add: replace_spaces_def)

text \<open>Replacing the spaces in the whole file name replaces them in the country and in the
  antigen: the fixed parts of the name hold none.\<close>

lemma out_csv_name:
  "replace_spaces (''coverage_'' @ cty @ ''_'' @ ant @ ''.csv'') =
   ''coverage_'' @ replace_spaces cty @ ''_'' @ replace_spaces ant @ ''.csv''"
  by (simp add: replace_spaces_def)

lemma out_png_name:
  "replace_spaces (''plot_'' @ cty @ ''_'' @ ant @ ''.png'') =
   ''plot_'' @ replace_spaces cty @ ''_'' @ replace_spaces ant @ ''.png''"
  by (simp add: replace_spaces_def)









end
